theory Spec2Isabelle
  imports Main "HOL-Library.Sublist"
begin

section \<open>Common ground of the two notification handlers\<close>

text \<open>
  A Python \<open>str\<close> is a \<open>string\<close> holding its UTF-8 encoding; the emoji of the source are
  written as their bytes. The process environment \<open>os.environ\<close> is a map from names to
  values. Exceptions are values: a function that may raise returns \<open>exn + 'a\<close>.
\<close>

type_synonym env = "string \<rightharpoonup> string"

datatype exn =
    ValueError
  | OverflowError
  | OSError
  | KeyError
  | JSONDecodeError
  | HTTPError
  | ConnectionError
  | SystemExit int

text \<open>\<open>except Exception\<close> does not catch \<open>SystemExit\<close>; a bare \<open>except:\<close> catches all.\<close>

fun is_Exception :: "exn \<Rightarrow> bool" where
  "is_Exception (SystemExit _) = False"
| "is_Exception _ = True"

definition environ_get :: "env \<Rightarrow> string \<Rightarrow> string \<Rightarrow> string" where
  "environ_get environ k d = (case environ k of Some v \<Rightarrow> v | None \<Rightarrow> d)"

subsection \<open>The string methods the handlers call\<close>

text \<open>\<open>s.replace(old, new)\<close> for a one-character \<open>old\<close>.\<close>

definition str_replace :: "char \<Rightarrow> string \<Rightarrow> string \<Rightarrow> string" where
  "str_replace old new s = concat (map (\<lambda>c. if c = old then new else [c]) s)"

text \<open>
  \<open>s.strip()\<close> removes the characters of \<open>str.isspace\<close> at both ends: the table lists
  the UTF-8 encoding of each of them (U+0009 to U+000D, U+001C to U+0020, U+0085, U+00A0,
  U+1680, U+2000 to U+200A, U+2028, U+2029, U+202F, U+205F, U+3000).
\<close>

definition whitespace :: "string list" where
  "whitespace =
     map (\<lambda>c. [c]) [CHR 0x09, CHR 0x0A, CHR 0x0B, CHR 0x0C, CHR 0x0D,
                    CHR 0x1C, CHR 0x1D, CHR 0x1E, CHR 0x1F, CHR 0x20]
     @ [[CHR 0xC2, CHR 0x85], [CHR 0xC2, CHR 0xA0], [CHR 0xE1, CHR 0x9A, CHR 0x80]]
     @ map (\<lambda>c. [CHR 0xE2, CHR 0x80, c])
         [CHR 0x80, CHR 0x81, CHR 0x82, CHR 0x83, CHR 0x84, CHR 0x85, CHR 0x86, CHR 0x87,
          CHR 0x88, CHR 0x89, CHR 0x8A, CHR 0xA8, CHR 0xA9, CHR 0xAF]
     @ [[CHR 0xE2, CHR 0x81, CHR 0x9F], [CHR 0xE3, CHR 0x80, CHR 0x80]]"

definition leading_space :: "string \<Rightarrow> nat" where
  "leading_space s = (case find (\<lambda>w. prefix w s) whitespace of Some w \<Rightarrow> length w | None \<Rightarrow> 0)"

definition trailing_space :: "string \<Rightarrow> nat" where
  "trailing_space s = (case find (\<lambda>w. suffix w s) whitespace of Some w \<Rightarrow> length w | None \<Rightarrow> 0)"

function str_lstrip :: "string \<Rightarrow> string" where
  "str_lstrip s = (if leading_space s = 0 then s else str_lstrip (drop (leading_space s) s))"
  by pat_completeness auto
termination
proof (relation "measure length")
  fix s :: string
  assume "leading_space s \<noteq> 0"
  then obtain w where "find (\<lambda>w. prefix w s) whitespace = Some w" "w \<noteq> []"
    by (auto simp: leading_space_def split: option.splits)
  then have "prefix w s" "w \<noteq> []"
    by (auto simp: find_Some_iff)
  then have "s \<noteq> []" by auto
  with \<open>leading_space s \<noteq> 0\<close> show "(drop (leading_space s) s, s) \<in> measure length"
    by simp
qed simp

function str_rstrip :: "string \<Rightarrow> string" where
  "str_rstrip s =
     (if trailing_space s = 0 then s else str_rstrip (take (length s - trailing_space s) s))"
  by pat_completeness auto
termination
proof (relation "measure length")
  fix s :: string
  assume "trailing_space s \<noteq> 0"
  then obtain w where "find (\<lambda>w. suffix w s) whitespace = Some w" "w \<noteq> []"
    by (auto simp: trailing_space_def split: option.splits)
  then have "suffix w s" "w \<noteq> []"
    by (auto simp: find_Some_iff)
  then have "s \<noteq> []" by auto
  with \<open>trailing_space s \<noteq> 0\<close> show "(take (length s - trailing_space s) s, s) \<in> measure length"
    by simp
qed simp

definition str_strip :: "string \<Rightarrow> string" where
  "str_strip s = str_rstrip (str_lstrip s)"

text \<open>\<open>s.split(sep)\<close> for a one-character separator: never an empty list.\<close>

fun str_split :: "char \<Rightarrow> string \<Rightarrow> string list" where
  "str_split sep [] = [[]]"
| "str_split sep (c # cs) =
     (if c = sep then [] # str_split sep cs
      else (case str_split sep cs of [] \<Rightarrow> [[c]] | w # ws \<Rightarrow> (c # w) # ws))"

text \<open>The tuple assignment \<open>a, b = xs\<close> raises \<open>ValueError\<close> unless \<open>xs\<close> has two items.\<close>

fun unpack2 :: "string list \<Rightarrow> exn + (string \<times> string)" where
  "unpack2 [a, b] = Inr (a, b)"
| "unpack2 _ = Inl ValueError"

section \<open>The chat notifier (\<open>scripts/notifications/discord.py\<close>)\<close>

definition DEDUP_WINDOW :: int where
  "DEDUP_WINDOW = 300"

text \<open>
  What the script takes from Python's library and from the host is a parameter of the
  model, so that every theorem holds whatever these functions compute. An instant is a
  unix timestamp counted in microseconds.
  \<^item> \<open>md5_hexdigest s\<close> is \<open>hashlib.md5(s.encode()).hexdigest()\<close>;
  \<^item> \<open>float_timestamp t\<close> is the instant that \<open>float(t)\<close> gives to
    \<open>datetime.fromtimestamp\<close> (rounded to the microsecond as \<open>fromtimestamp\<close> does),
    or the exception that \<open>float\<close> or \<open>fromtimestamp\<close> raises;
  \<^item> \<open>utcoffset t\<close> is the offset of the host's local time from UTC at the instant
    \<open>t\<close>, in microseconds;
  \<^item> \<open>str_timestamp n\<close> is the text of \<open>datetime.now().timestamp()\<close> in an f-string,
    for the clock at the instant \<open>n\<close>.
\<close>

record pylib =
  md5_hexdigest :: "string \<Rightarrow> string"
  float_timestamp :: "string \<Rightarrow> exn + int"
  utcoffset :: "int \<Rightarrow> int"
  str_timestamp :: "int \<Rightarrow> string"

text \<open>
  \<open>datetime.fromtimestamp(t)\<close> is a naive datetime, the local wall clock at the instant
  \<open>t\<close>: it is counted here in microseconds of the local calendar. \<open>datetime.now()\<close> is
  \<open>fromtimestamp\<close> of the clock's instant. The difference of two naive datetimes is the
  difference of these counts.
\<close>

definition fromtimestamp :: "pylib \<Rightarrow> int \<Rightarrow> int" where
  "fromtimestamp L t = t + utcoffset L t"

text \<open>
  \<open>timedelta.seconds\<close> of a difference of \<open>d\<close> microseconds: a \<open>timedelta\<close> is kept as
  days, seconds in \<open>[0, 86400)\<close> and microseconds in \<open>[0, 1000000)\<close>, the days taking the
  sign.
\<close>

definition timedelta_seconds :: "int \<Rightarrow> int" where
  "timedelta_seconds d = (d div 1000000) mod 86400"

definition escape_discord :: "string option \<Rightarrow> string" where
  "escape_discord text =
     (case text of
        None \<Rightarrow> []
      | Some t \<Rightarrow>
          if t = [] then []
          else str_replace CHR ''~'' [CHR 0x5C, CHR ''~'']
                 (str_replace CHR ''*'' [CHR 0x5C, CHR ''*'']
                   (str_replace CHR ''_'' [CHR 0x5C, CHR ''_''] t)))"

definition get_alert_fingerprint :: "pylib \<Rightarrow> env \<Rightarrow> string" where
  "get_alert_fingerprint L environ =
     md5_hexdigest L
       (environ_get environ ''NOTIFY_HOSTNAME'' [] @ ''_''
        @ environ_get environ ''NOTIFY_SERVICEDESC'' [] @ ''_''
        @ environ_get environ ''NOTIFY_SERVICESTATE'' [])"

text \<open>
  The loop of \<open>is_duplicate_notification\<close> over \<open>f.readlines()\<close>. The \<open>and\<close> of the
  source does not parse the timestamp of a line whose fingerprint differs. The clock is
  read once: \<open>now\<close> is the instant of every \<open>datetime.now()\<close> of one scan.
\<close>

definition parse_line :: "string \<Rightarrow> exn + (string \<times> string)" where
  "parse_line line = unpack2 (str_split CHR ''|'' (str_strip line))"

fun scan_lines :: "pylib \<Rightarrow> int \<Rightarrow> string \<Rightarrow> string list \<Rightarrow> exn + bool" where
  "scan_lines L now fingerprint [] = Inr False"
| "scan_lines L now fingerprint (line # rest) =
     (case parse_line line of
        Inl e \<Rightarrow> Inl e
      | Inr (stored_fp, timestamp) \<Rightarrow>
          if stored_fp = fingerprint then
            (case float_timestamp L timestamp of
               Inl e \<Rightarrow> Inl e
             | Inr t \<Rightarrow>
                 if timedelta_seconds (fromtimestamp L now - fromtimestamp L t) < DEDUP_WINDOW
                 then Inr True
                 else scan_lines L now fingerprint rest)
          else scan_lines L now fingerprint rest)"

text \<open>
  The state file is \<open>None\<close> when it does not exist, and else the lines that
  \<open>readlines\<close> returns. The bare \<open>except\<close> turns every exception into \<open>False\<close>.
\<close>

definition is_duplicate_notification ::
  "pylib \<Rightarrow> string list option \<Rightarrow> int \<Rightarrow> string \<Rightarrow> exn + bool" where
  "is_duplicate_notification L state_file now fingerprint =
     (case (case state_file of
              None \<Rightarrow> Inr False
            | Some lines \<Rightarrow> scan_lines L now fingerprint lines) of
        Inl e \<Rightarrow> Inr False
      | Inr b \<Rightarrow> Inr b)"

record message =
  color :: int
  emoji :: string
  title :: string
  description :: string
  details :: string
  footer :: string

definition get_custom_message :: "env \<Rightarrow> string \<Rightarrow> message" where
  "get_custom_message environ state =
     (if state = ''OK'' then
        \<lparr>color = 65280,
         emoji = [CHR 0xE2, CHR 0x9C, CHR 0x85],
         title = ''[AWS] Service Recovery'',
         description = ''The Windows server services are recovered.'',
         details = ''Every services are working correctly.'',
         footer = ''System back to normal operation''\<rparr>
      else if state = ''WARNING'' then
        \<lparr>color = 16776960,
         emoji = [CHR 0xE2, CHR 0x9A, CHR 0xA0, CHR 0xEF, CHR 0xB8, CHR 0x8F],
         title = ''[AWS] Performance Warning'',
         description = ''The Windows server services could be slower.'',
         details = ''You could have network failure and file access deprecated.'',
         footer = ''Investigate when possible''\<rparr>
      else if state = ''CRITICAL'' then
        \<lparr>color = 16711680,
         emoji = [CHR 0xF0, CHR 0x9F, CHR 0x9A, CHR 0xA8],
         title = ''[AWS] Service Outage'',
         description = ''The Windows server services are down.'',
         details = ''The network could not work correctly and your file access aren''
                   @ [CHR 0x27] @ ''t sure.'',
         footer = ''Immediate action required''\<rparr>
      else
        \<lparr>color = 3553599,
         emoji = [CHR 0xE2, CHR 0x84, CHR 0xB9, CHR 0xEF, CHR 0xB8, CHR 0x8F],
         title = ''Service Notification'',
         description = ''Service state changed to '' @ state,
         details = environ_get environ ''NOTIFY_SERVICEOUTPUT'' ''No details available'',
         footer = ''CheckMK Monitoring''\<rparr>)"

text \<open>The embed that is posted, and the module's main flow with what it does outside.\<close>

record field =
  name :: string
  val :: string
  inline :: "bool option"

record embed =
  embed_title :: string
  embed_color :: int
  embed_description :: string
  embed_fields :: "field list"
  embed_footer_text :: string
  embed_footer_icon_url :: string
  embed_timestamp :: string

datatype effect =
    Webhook_post embed
  | Record_notification string
  | Error_log int exn

record run =
  effects :: "effect list"
  raised :: "exn option"

definition build_embed :: "env \<Rightarrow> embed" where
  "build_embed environ =
     (let host = escape_discord (Some (environ_get environ ''NOTIFY_HOSTNAME'' ''Unknown Server''));
          service = escape_discord (Some (environ_get environ ''NOTIFY_SERVICEDESC'' ''Windows Services''));
          state = environ_get environ ''NOTIFY_SERVICESTATE'' ''UNKNOWN'';
          msg = get_custom_message environ state
      in \<lparr>embed_title = emoji msg @ '' '' @ title msg @ '' - '' @ host @ '' '' @ emoji msg,
          embed_color = color msg,
          embed_description = description msg,
          embed_fields =
            [\<lparr>name = [CHR 0xF0, CHR 0x9F, CHR 0x96, CHR 0xA5, CHR 0xEF, CHR 0xB8, CHR 0x8F] @ '' Server'',
              val = host, inline = Some True\<rparr>,
             \<lparr>name = [CHR 0xF0, CHR 0x9F, CHR 0x94, CHR 0xA7] @ '' Service'',
              val = service, inline = Some True\<rparr>,
             \<lparr>name = [CHR 0xF0, CHR 0x9F, CHR 0x93, CHR 0xA2] @ '' Status Update'',
              val = details msg, inline = None\<rparr>],
          embed_footer_text = footer msg,
          embed_footer_icon_url = ''https://checkmk.com/favicon.ico'',
          embed_timestamp = environ_get environ ''NOTIFY_SHORTDATETIME'' []\<rparr>)"

text \<open>\<open>response.raise_for_status()\<close> on the status code of the response.\<close>

definition raise_for_status :: "nat \<Rightarrow> exn + unit" where
  "raise_for_status code = (if 400 \<le> code \<and> code < 600 then Inl HTTPError else Inr ())"

text \<open>
  The statements of the \<open>try\<close> block; \<open>requests_post\<close> gives the status code of the
  webhook's answer, or the exception of the request.
\<close>

definition try_block ::
  "pylib \<Rightarrow> (embed \<Rightarrow> exn + nat) \<Rightarrow> env \<Rightarrow> string list option \<Rightarrow> int \<Rightarrow> run" where
  "try_block L requests_post environ state_file now =
     (let alert_id = get_alert_fingerprint L environ in
      case is_duplicate_notification L state_file now alert_id of
        Inl e \<Rightarrow> \<lparr>effects = [], raised = Some e\<rparr>
      | Inr True \<Rightarrow> \<lparr>effects = [], raised = Some (SystemExit 0)\<rparr>
      | Inr False \<Rightarrow>
          (let e = build_embed environ in
           case requests_post e of
             Inl x \<Rightarrow> \<lparr>effects = [Webhook_post e], raised = Some x\<rparr>
           | Inr code \<Rightarrow>
               (case raise_for_status code of
                  Inl x \<Rightarrow> \<lparr>effects = [Webhook_post e], raised = Some x\<rparr>
                | Inr _ \<Rightarrow>
                    \<lparr>effects = [Webhook_post e,
                                Record_notification
                                  (alert_id @ ''|'' @ str_timestamp L now @ [CHR 0x0A])],
                     raised = None\<rparr>)))"

text \<open>
  The whole script: \<open>except Exception\<close> logs the error and raises it again. The exit
  status of the process is 0 when nothing is raised or \<open>SystemExit 0\<close> is.
\<close>

definition discord_main ::
  "pylib \<Rightarrow> (embed \<Rightarrow> exn + nat) \<Rightarrow> env \<Rightarrow> string list option \<Rightarrow> int \<Rightarrow> run" where
  "discord_main L requests_post environ state_file now =
     (let r = try_block L requests_post environ state_file now in
      case raised r of
        None \<Rightarrow> r
      | Some e \<Rightarrow>
          if is_Exception e then r\<lparr>effects := effects r @ [Error_log now e]\<rparr> else r)"

definition exit_status :: "run \<Rightarrow> int" where
  "exit_status r =
     (case raised r of None \<Rightarrow> 0 | Some (SystemExit n) \<Rightarrow> n | Some _ \<Rightarrow> 1)"

fun is_post :: "effect \<Rightarrow> bool" where
  "is_post (Webhook_post _) = True"
| "is_post _ = False"

text \<open>
  The claim made for the duplicate check, in the spec's words: some stored line carries
  the same fingerprint with a timestamp whose elapsed time, from the instant the line
  records to the instant of the clock, is below 300 seconds (of 1000000 microseconds).
\<close>

definition line_seen_within_window :: "pylib \<Rightarrow> int \<Rightarrow> string \<Rightarrow> string \<Rightarrow> bool" where
  "line_seen_within_window L now fingerprint line =
     (case parse_line line of
        Inl _ \<Rightarrow> False
      | Inr (stored_fp, timestamp) \<Rightarrow>
          stored_fp = fingerprint \<and>
          (case float_timestamp L timestamp of
             Inl _ \<Rightarrow> False
           | Inr t \<Rightarrow> now - t < 300 * 1000000))"

definition seen_within_window :: "pylib \<Rightarrow> int \<Rightarrow> string \<Rightarrow> string list \<Rightarrow> bool" where
  "seen_within_window L now fingerprint lines =
     list_ex (line_seen_within_window L now fingerprint) lines"

text \<open>
  A line the scan for a fingerprint reads without an exception, and the test the loop
  makes on one line.
\<close>

definition readable :: "pylib \<Rightarrow> string \<Rightarrow> string \<Rightarrow> bool" where
  "readable L fingerprint line =
     (case parse_line line of
        Inl _ \<Rightarrow> False
      | Inr (stored_fp, timestamp) \<Rightarrow>
          if stored_fp = fingerprint then
            (case float_timestamp L timestamp of Inl _ \<Rightarrow> False | Inr _ \<Rightarrow> True)
          else True)"

definition line_is_duplicate :: "pylib \<Rightarrow> int \<Rightarrow> string \<Rightarrow> string \<Rightarrow> bool" where
  "line_is_duplicate L now fingerprint line =
     (case parse_line line of
        Inl _ \<Rightarrow> False
      | Inr (stored_fp, timestamp) \<Rightarrow>
          stored_fp = fingerprint \<and>
          (case float_timestamp L timestamp of
             Inl _ \<Rightarrow> False
           | Inr t \<Rightarrow>
               timedelta_seconds (fromtimestamp L now - fromtimestamp L t) < DEDUP_WINDOW))"

text \<open>
  A library for the closed examples, on a host whose local time is UTC. It reads a run
  of decimal digits, with \<open>.0\<close> after it or not, as whole seconds, which is what \<open>float\<close>
  and \<open>fromtimestamp\<close> make of it, and rejects every other text; it writes a clock on a
  whole second as Python does (\<open>450.0\<close>). The digest is a stand-in (the identity), since
  no theorem depends on what the digest computes.
\<close>

definition digit_value :: "char \<Rightarrow> int option" where
  "digit_value c =
     (if 48 \<le> (of_char c :: nat) \<and> (of_char c :: nat) \<le> 57
      then Some (int (of_char c) - 48) else None)"

fun decimal_value :: "int \<Rightarrow> string \<Rightarrow> int option" where
  "decimal_value acc [] = Some acc"
| "decimal_value acc (c # cs) =
     (case digit_value c of None \<Rightarrow> None | Some d \<Rightarrow> decimal_value (10 * acc + d) cs)"

definition digits_value :: "string \<Rightarrow> exn + int" where
  "digits_value t =
     (if t = [] then Inl ValueError
      else case decimal_value 0 t of None \<Rightarrow> Inl ValueError | Some n \<Rightarrow> Inr (n * 1000000))"

definition whole_seconds :: "string \<Rightarrow> exn + int" where
  "whole_seconds t =
     (case str_split CHR ''.'' t of
        [a] \<Rightarrow> digits_value a
      | [a, b] \<Rightarrow> if b = ''0'' then digits_value a else Inl ValueError
      | _ \<Rightarrow> Inl ValueError)"

function decimal_digits :: "nat \<Rightarrow> string" where
  "decimal_digits n =
     (if n < 10 then [char_of (48 + n)]
      else decimal_digits (n div 10) @ [char_of (48 + n mod 10)])"
  by pat_completeness auto
termination
  by (relation "measure id") auto

definition sample_lib :: pylib where
  "sample_lib =
     \<lparr>md5_hexdigest = (\<lambda>s. s),
      float_timestamp = whole_seconds,
      utcoffset = (\<lambda>t. 0),
      str_timestamp = (\<lambda>n. decimal_digits (nat (n div 1000000)) @ ''.0'')\<rparr>"

text \<open>
  The same library on a host in the zone \<open>Europe/Zurich\<close>, for instants of the year 2024
  after March: local time is two hours ahead of UTC until 2024-10-27 01:00:00 UTC (the
  instant 1729990800 s) and one hour ahead from then on.
\<close>

definition zurich_lib :: pylib where
  "zurich_lib =
     sample_lib\<lparr>utcoffset :=
       (\<lambda>t. if t < 1729990800 * 1000000 then 7200 * 1000000 else 3600 * 1000000)\<rparr>"

section \<open>The ticketing notifier (\<open>scripts/notifications/glpi.py\<close>)\<close>

text \<open>
  The state file holds a JSON object from fingerprints to ticket ids, which
  \<open>json.load\<close> returns as a dict: a map. It may be missing, and it may hold text that
  \<open>json.load\<close> rejects. Writing the file is taken to succeed.
\<close>

type_synonym ticket_map = "string \<rightharpoonup> int"

datatype state_file = Missing | Corrupt | Content ticket_map

definition read_state :: "state_file \<Rightarrow> exn + ticket_map" where
  "read_state f =
     (case f of
        Missing \<Rightarrow> Inr Map.empty
      | Corrupt \<Rightarrow> Inl JSONDecodeError
      | Content m \<Rightarrow> Inr m)"

definition write_state :: "ticket_map \<Rightarrow> state_file" where
  "write_state state_data = Content state_data"

text \<open>The body of the request that creates a ticket.\<close>

record ticket_input =
  ti_name :: string
  ti_content :: string
  ti_status :: int
  ti_priority :: int
  ti_urgency :: int
  ti_impact :: int
  ti_type :: int
  ti_requesttypes_id :: int
  ti_itilcategories_id :: int

text \<open>
  The ticketing system is outside the program: each request has a result, the value the
  function around it returns or the exception it raises (of the request, of
  \<open>raise_for_status\<close>, or of reading the answer).
\<close>

record glpi =
  init_session :: "exn + string"
  post_ticket :: "string \<Rightarrow> ticket_input \<Rightarrow> exn + int"
  put_ticket :: "string \<Rightarrow> int \<Rightarrow> exn + unit"
  kill_session :: "string \<Rightarrow> exn + unit"

datatype call =
    Read_state
  | Open_session
  | Create_ticket string ticket_input
  | Print_created int string
  | Close_ticket string int
  | Print_closed int string
  | Close_session string
  | Write_state

definition open_session :: "glpi \<Rightarrow> exn + string" where
  "open_session api = init_session api"

definition close_session :: "glpi \<Rightarrow> string \<Rightarrow> exn + unit" where
  "close_session api session_token = kill_session api session_token"

definition ticket_payload :: "string \<Rightarrow> string \<Rightarrow> string \<Rightarrow> string \<Rightarrow> ticket_input" where
  "ticket_payload host service state output =
     \<lparr>ti_name = state @ '' on '' @ host,
      ti_content = ''Issue with service '' @ [CHR 0x27] @ service @ [CHR 0x27] @ '' on host ''
                   @ [CHR 0x27] @ host @ [CHR 0x27] @ [CHR 0x0A, CHR 0x0A] @ ''Details: ''
                   @ output,
      ti_status = 1,
      ti_priority = 3,
      ti_urgency = 2,
      ti_impact = 2,
      ti_type = 1,
      ti_requesttypes_id = 1,
      ti_itilcategories_id = 698\<rparr>"

definition create_ticket ::
  "glpi \<Rightarrow> string \<Rightarrow> string \<Rightarrow> string \<Rightarrow> string \<Rightarrow> string \<Rightarrow> exn + int" where
  "create_ticket api session_token host service state output =
     post_ticket api session_token (ticket_payload host service state output)"

definition close_ticket :: "glpi \<Rightarrow> string \<Rightarrow> int \<Rightarrow> exn + unit" where
  "close_ticket api session_token ticket_id = put_ticket api session_token ticket_id"

definition fingerprint_of :: "env \<Rightarrow> string" where
  "fingerprint_of environ =
     environ_get environ ''NOTIFY_HOSTNAME'' ''Unknown'' @ ''_''
     @ environ_get environ ''NOTIFY_SERVICEDESC'' ''Service''"

text \<open>
  The \<open>try\<close> block of \<open>main\<close>: the exception it ends with (if any), the dict
  \<open>state_data\<close> as the block leaves it, and the calls it made.
\<close>

definition ticket_ops ::
  "glpi \<Rightarrow> env \<Rightarrow> string \<Rightarrow> ticket_map \<Rightarrow> exn option \<times> ticket_map \<times> call list" where
  "ticket_ops api environ session state_data =
     (let host = environ_get environ ''NOTIFY_HOSTNAME'' ''Unknown'';
          service = environ_get environ ''NOTIFY_SERVICEDESC'' ''Service'';
          state = environ_get environ ''NOTIFY_SERVICESTATE'' ''UNKNOWN'';
          output = environ_get environ ''NOTIFY_SERVICEOUTPUT'' ''No output'';
          fingerprint = host @ ''_'' @ service
      in if state = ''CRITICAL'' \<or> state = ''WARNING'' then
           (case state_data fingerprint of
              None \<Rightarrow>
                (case create_ticket api session host service state output of
                   Inl e \<Rightarrow>
                     (Some e, state_data,
                      [Create_ticket session (ticket_payload host service state output)])
                 | Inr ticket_id \<Rightarrow>
                     (None, state_data(fingerprint \<mapsto> ticket_id),
                      [Create_ticket session (ticket_payload host service state output),
                       Print_created ticket_id fingerprint]))
            | Some _ \<Rightarrow> (None, state_data, []))
         else if state = ''OK'' then
           (case state_data fingerprint of
              Some ticket_id \<Rightarrow>
                (case close_ticket api session ticket_id of
                   Inl e \<Rightarrow> (Some e, state_data, [Close_ticket session ticket_id])
                 | Inr _ \<Rightarrow>
                     (None, state_data(fingerprint := None),
                      [Close_ticket session ticket_id, Print_closed ticket_id fingerprint]))
            | None \<Rightarrow> (None, state_data, []))
         else (None, state_data, []))"

text \<open>
  One invocation of \<open>main\<close> on the environment, the state file and the ticketing system:
  the calls in the order they are made, the exception \<open>main\<close> ends with, and the state
  file it leaves.
\<close>

record invocation =
  trace :: "call list"
  failure :: "exn option"
  disk :: state_file

definition main :: "glpi \<Rightarrow> env \<Rightarrow> state_file \<Rightarrow> invocation" where
  "main api environ file =
     (case read_state file of
        Inl e \<Rightarrow> \<lparr>trace = [Read_state], failure = Some e, disk = file\<rparr>
      | Inr state_data \<Rightarrow>
          (case open_session api of
             Inl e \<Rightarrow> \<lparr>trace = [Read_state, Open_session], failure = Some e, disk = file\<rparr>
           | Inr session \<Rightarrow>
               (case ticket_ops api environ session state_data of
                  (pending, state_data', calls) \<Rightarrow>
                    (case close_session api session of
                       Inl e \<Rightarrow>
                         \<lparr>trace = [Read_state, Open_session] @ calls @ [Close_session session],
                          failure = Some e, disk = file\<rparr>
                     | Inr _ \<Rightarrow>
                         \<lparr>trace = [Read_state, Open_session] @ calls
                                  @ [Close_session session, Write_state],
                          failure = pending, disk = write_state state_data'\<rparr>))))"

fun is_ticket_call :: "call \<Rightarrow> bool" where
  "is_ticket_call (Create_ticket _ _) = True"
| "is_ticket_call (Close_ticket _ _) = True"
| "is_ticket_call _ = False"

definition ticket_calls :: "invocation \<Rightarrow> call list" where
  "ticket_calls r = filter is_ticket_call (trace r)"

section \<open>Reference definitions and sample inputs\<close>

text \<open>
  What the spec says of the escape function, character by character: an underscore, an
  asterisk or a tilde gets a backslash before it, every other character stays.
\<close>

definition escaped_char :: "char \<Rightarrow> string" where
  "escaped_char c =
     (if c = CHR ''_'' \<or> c = CHR ''*'' \<or> c = CHR ''~'' then [CHR 0x5C, c] else [c])"

text \<open>The environment of one monitoring event, and a webhook that accepts the post.\<close>

definition event :: "string \<Rightarrow> string \<Rightarrow> string \<Rightarrow> string \<Rightarrow> env" where
  "event host service state output =
     [''NOTIFY_HOSTNAME'' \<mapsto> host, ''NOTIFY_SERVICEDESC'' \<mapsto> service,
      ''NOTIFY_SERVICESTATE'' \<mapsto> state, ''NOTIFY_SERVICEOUTPUT'' \<mapsto> output]"

definition webhook_ok :: "embed \<Rightarrow> exn + nat" where
  "webhook_ok e = Inr 204"

text \<open>
  Four ticketing systems: one that answers every request (a new ticket gets the id
  \<open>n\<close>), one that cannot be reached, one that refuses to create tickets, and one whose
  answer to the session's end is lost.
\<close>

definition glpi_up :: "int \<Rightarrow> glpi" where
  "glpi_up n =
     \<lparr>init_session = Inr ''s1'', post_ticket = (\<lambda>_ _. Inr n),
      put_ticket = (\<lambda>_ _. Inr ()), kill_session = (\<lambda>_. Inr ())\<rparr>"

definition glpi_down :: glpi where
  "glpi_down = (glpi_up 0)\<lparr>init_session := Inl ConnectionError\<rparr>"

definition glpi_rejecting :: glpi where
  "glpi_rejecting = (glpi_up 0)\<lparr>post_ticket := (\<lambda>_ _. Inl HTTPError)\<rparr>"

definition glpi_dropping :: "int \<Rightarrow> glpi" where
  "glpi_dropping n = (glpi_up n)\<lparr>kill_session := (\<lambda>_. Inl ConnectionError)\<rparr>"

section \<open>The chat notifier: escaping, messages, fingerprints\<close>

lemma str_replace_Nil: "str_replace old new [] = []"
  by (simp add: str_replace_def)

lemma str_replace_Cons:
  "str_replace old new (c # cs) = (if c = old then new else [c]) @ str_replace old new cs"
  by (simp add: str_replace_def)

lemma str_replace_append:
  "str_replace old new (xs @ ys) = str_replace old new xs @ str_replace old new ys"
  by (simp add: str_replace_def)

lemma three_replaces:
  "str_replace CHR ''~'' [CHR 0x5C, CHR ''~'']
     (str_replace CHR ''*'' [CHR 0x5C, CHR ''*'']
       (str_replace CHR ''_'' [CHR 0x5C, CHR ''_''] t)) = concat (map escaped_char t)"
proof (induction t)
  case Nil
  show ?case by (simp add: str_replace_Nil)
next
  case (Cons c cs)
  then show ?case
    by (simp add: str_replace_Cons str_replace_append str_replace_Nil escaped_char_def)
qed

text \<open>
  C7: for every input string, \<open>escape_discord\<close> puts a backslash before each
  underscore, asterisk and tilde and leaves every other character as it is, so that
  \<open>a_b*c~d\<close> becomes \<open>a\_b\*c\~d\<close>; an empty or a missing input gives the empty string.
\<close>

theorem escape_discord_prefixes_markup:
  "escape_discord (Some text) = concat (map escaped_char text)
   \<and> escape_discord None = []
   \<and> escape_discord (Some []) = []
   \<and> escape_discord (Some ''a_b*c~d'')
       = [CHR ''a'', CHR 0x5C, CHR ''_'', CHR ''b'', CHR 0x5C, CHR ''*'', CHR ''c'',
          CHR 0x5C, CHR ''~'', CHR ''d'']"
proof -
  have "escape_discord (Some text) = concat (map escaped_char text)"
    by (cases "text") (simp_all add: escape_discord_def three_replaces)
  then show ?thesis
    by (simp add: escape_discord_def str_replace_def)
qed

text \<open>
  C6: for the state \<open>OK\<close>, \<open>get_custom_message\<close> returns exactly the literal record of
  the recovery message; for a state that is none of \<open>OK\<close>, \<open>WARNING\<close>, \<open>CRITICAL\<close>
  (such as \<open>FOO\<close>) it returns the default record, whose description ends with the raw
  state name and whose details are the event's output text.
\<close>

theorem state_message_mapping:
  "get_custom_message environ ''OK''
     = \<lparr>color = 65280,
        emoji = [CHR 0xE2, CHR 0x9C, CHR 0x85],
        title = ''[AWS] Service Recovery'',
        description = ''The Windows server services are recovered.'',
        details = ''Every services are working correctly.'',
        footer = ''System back to normal operation''\<rparr>
   \<and> (state \<noteq> ''OK'' \<and> state \<noteq> ''WARNING'' \<and> state \<noteq> ''CRITICAL'' \<longrightarrow>
        description (get_custom_message environ state) = ''Service state changed to '' @ state
        \<and> sublist state (description (get_custom_message environ state))
        \<and> details (get_custom_message environ state)
            = environ_get environ ''NOTIFY_SERVICEOUTPUT'' ''No details available''
        \<and> (\<forall>output. environ ''NOTIFY_SERVICEOUTPUT'' = Some output \<longrightarrow>
              details (get_custom_message environ state) = output))
   \<and> description (get_custom_message environ ''FOO'') = ''Service state changed to FOO''
   \<and> sublist ''FOO'' (description (get_custom_message environ ''FOO''))"
proof -
  have ok: "get_custom_message environ ''OK''
     = \<lparr>color = 65280,
        emoji = [CHR 0xE2, CHR 0x9C, CHR 0x85],
        title = ''[AWS] Service Recovery'',
        description = ''The Windows server services are recovered.'',
        details = ''Every services are working correctly.'',
        footer = ''System back to normal operation''\<rparr>"
    by (simp add: get_custom_message_def)
  have other: "get_custom_message environ state
     = \<lparr>color = 3553599,
        emoji = [CHR 0xE2, CHR 0x84, CHR 0xB9, CHR 0xEF, CHR 0xB8, CHR 0x8F],
        title = ''Service Notification'',
        description = ''Service state changed to '' @ state,
        details = environ_get environ ''NOTIFY_SERVICEOUTPUT'' ''No details available'',
        footer = ''CheckMK Monitoring''\<rparr>"
    if "state \<noteq> ''OK''" "state \<noteq> ''WARNING''" "state \<noteq> ''CRITICAL''" for state
    using that by (simp add: get_custom_message_def)
  have sub: "sublist state (''Service state changed to '' @ state)" for state :: string
    by (rule suffix_imp_sublist) (simp add: suffix_def)
  have foo: "description (get_custom_message environ ''FOO'') = ''Service state changed to FOO''"
    by (simp add: other)
  have "sublist ''FOO'' (''Service state changed to '' @ ''FOO'')"
    by (rule sub)
  then have foo_sub: "sublist ''FOO'' (description (get_custom_message environ ''FOO''))"
    by (simp add: foo)
  have gen: "state \<noteq> ''OK'' \<and> state \<noteq> ''WARNING'' \<and> state \<noteq> ''CRITICAL'' \<longrightarrow>
        description (get_custom_message environ state) = ''Service state changed to '' @ state
        \<and> sublist state (description (get_custom_message environ state))
        \<and> details (get_custom_message environ state)
            = environ_get environ ''NOTIFY_SERVICEOUTPUT'' ''No details available''
        \<and> (\<forall>output. environ ''NOTIFY_SERVICEOUTPUT'' = Some output \<longrightarrow>
              details (get_custom_message environ state) = output)"
  proof
    assume "state \<noteq> ''OK'' \<and> state \<noteq> ''WARNING'' \<and> state \<noteq> ''CRITICAL''"
    then have o: "get_custom_message environ state
     = \<lparr>color = 3553599,
        emoji = [CHR 0xE2, CHR 0x84, CHR 0xB9, CHR 0xEF, CHR 0xB8, CHR 0x8F],
        title = ''Service Notification'',
        description = ''Service state changed to '' @ state,
        details = environ_get environ ''NOTIFY_SERVICEOUTPUT'' ''No details available'',
        footer = ''CheckMK Monitoring''\<rparr>"
      by (simp add: other)
    show "description (get_custom_message environ state) = ''Service state changed to '' @ state
        \<and> sublist state (description (get_custom_message environ state))
        \<and> details (get_custom_message environ state)
            = environ_get environ ''NOTIFY_SERVICEOUTPUT'' ''No details available''
        \<and> (\<forall>output. environ ''NOTIFY_SERVICEOUTPUT'' = Some output \<longrightarrow>
              details (get_custom_message environ state) = output)"
      unfolding o using sub [of state] by (simp add: environ_get_def)
  qed
  show ?thesis
    by (intro conjI ok gen foo foo_sub)
qed

theorem state_message_mapping_witness:
  "''FOO'' \<noteq> ''OK'' \<and> ''FOO'' \<noteq> ''WARNING'' \<and> ''FOO'' \<noteq> ''CRITICAL''
   \<and> event ''host1'' ''svcA'' ''FOO'' ''disk full'' ''NOTIFY_SERVICEOUTPUT'' = Some ''disk full''
   \<and> description (get_custom_message (event ''host1'' ''svcA'' ''FOO'' ''disk full'') ''FOO'')
       = ''Service state changed to FOO''
   \<and> details (get_custom_message (event ''host1'' ''svcA'' ''FOO'' ''disk full'') ''FOO'')
       = ''disk full''"
proof -
  have h: "''FOO'' \<noteq> ''OK'' \<and> ''FOO'' \<noteq> ''WARNING'' \<and> ''FOO'' \<noteq> ''CRITICAL''"
    by simp
  have o: "event ''host1'' ''svcA'' ''FOO'' ''disk full'' ''NOTIFY_SERVICEOUTPUT'' = Some ''disk full''"
    by (simp add: event_def)
  from state_message_mapping [of "event ''host1'' ''svcA'' ''FOO'' ''disk full''" "''FOO''"] h o
  show ?thesis
    by (simp add: environ_get_def)
qed

text \<open>
  C9: the fingerprints of both handlers join their fields with a bare underscore, so two
  events with different hosts and services (host \<open>a_b\<close> with service \<open>c\<close>, host \<open>a\<close>
  with service \<open>b_c\<close>) get the same key: the chat notifier's digests are equal whatever
  the digest function is, and the ticketing notifier's fingerprints are the same string.
  The two events then share one answer of the duplicate check, and a \<open>CRITICAL\<close> event
  of the second finds the ticket entry of the first and creates no ticket.
\<close>

theorem fingerprints_not_injective:
  "get_alert_fingerprint L (event (h @ ''_'' @ s) t state output)
     = get_alert_fingerprint L (event h (s @ ''_'' @ t) state output)
   \<and> fingerprint_of (event (h @ ''_'' @ s) t state output)
     = fingerprint_of (event h (s @ ''_'' @ t) state output)
   \<and> get_alert_fingerprint L (event ''a_b'' ''c'' state output)
     = get_alert_fingerprint L (event ''a'' ''b_c'' state output)
   \<and> fingerprint_of (event ''a_b'' ''c'' state output) = ''a_b_c''
   \<and> fingerprint_of (event ''a'' ''b_c'' state output) = ''a_b_c''
   \<and> event ''a_b'' ''c'' state output ''NOTIFY_HOSTNAME''
       \<noteq> event ''a'' ''b_c'' state output ''NOTIFY_HOSTNAME''
   \<and> event ''a_b'' ''c'' state output ''NOTIFY_SERVICEDESC''
       \<noteq> event ''a'' ''b_c'' state output ''NOTIFY_SERVICEDESC''
   \<and> is_duplicate_notification L file now
         (get_alert_fingerprint L (event ''a_b'' ''c'' state output))
       = is_duplicate_notification L file now
           (get_alert_fingerprint L (event ''a'' ''b_c'' state output))
   \<and> trace (main (glpi_up 43) (event ''a'' ''b_c'' ''CRITICAL'' output)
         (Content [fingerprint_of (event ''a_b'' ''c'' ''CRITICAL'' output) \<mapsto> 42]))
       = [Read_state, Open_session, Close_session ''s1'', Write_state]"
proof -
  have k: "get_alert_fingerprint L (event (h @ ''_'' @ s) t state output)
      = get_alert_fingerprint L (event h (s @ ''_'' @ t) state output)"
    "fingerprint_of (event (h @ ''_'' @ s) t state output)
      = fingerprint_of (event h (s @ ''_'' @ t) state output)"
    for h s t
    by (simp_all add: get_alert_fingerprint_def fingerprint_of_def event_def environ_get_def)
  have c: "get_alert_fingerprint L (event ''a_b'' ''c'' state output)
      = get_alert_fingerprint L (event ''a'' ''b_c'' state output)"
    using k(1) [of "''a''" "''b''" "''c''"] by simp
  have f: "fingerprint_of (event ''a_b'' ''c'' state output) = ''a_b_c''"
    "fingerprint_of (event ''a'' ''b_c'' state output) = ''a_b_c''" for state
    by (simp_all add: fingerprint_of_def event_def environ_get_def)
  have d: "event ''a_b'' ''c'' state output ''NOTIFY_HOSTNAME''
       \<noteq> event ''a'' ''b_c'' state output ''NOTIFY_HOSTNAME''"
    "event ''a_b'' ''c'' state output ''NOTIFY_SERVICEDESC''
       \<noteq> event ''a'' ''b_c'' state output ''NOTIFY_SERVICEDESC''"
    by (simp_all add: event_def)
  have m: "trace (main (glpi_up 43) (event ''a'' ''b_c'' ''CRITICAL'' output)
         (Content [fingerprint_of (event ''a_b'' ''c'' ''CRITICAL'' output) \<mapsto> 42]))
       = [Read_state, Open_session, Close_session ''s1'', Write_state]"
    unfolding f
    by (simp add: main_def ticket_ops_def read_state_def open_session_def close_session_def
        glpi_up_def event_def environ_get_def)
  show ?thesis
    unfolding c by (intro conjI k f d m refl)
qed

section \<open>The chat notifier: the duplicate check\<close>

text \<open>
  What the scan returns on a log it reads without an exception, and the two parts of the
  window rule that the code keeps there: an entry of the fingerprint that is less than
  300 seconds old, not in the future and written under the UTC offset of the clock
  makes the event a duplicate, whatever the age of the other entries; and a fingerprint
  that no line carries is not a duplicate.
\<close>

lemma scan_lines_readable:
  "\<forall>line\<in>set lines. readable L fp line \<Longrightarrow>
   scan_lines L now fp lines = Inr (list_ex (line_is_duplicate L now fp) lines)"
proof (induction lines)
  case Nil
  show ?case by simp
next
  case (Cons line rest)
  then have rd: "readable L fp line"
    and IH: "scan_lines L now fp rest = Inr (list_ex (line_is_duplicate L now fp) rest)"
    by simp_all
  from rd obtain stored_fp timestamp where p: "parse_line line = Inr (stored_fp, timestamp)"
    by (auto simp: readable_def split: sum.splits)
  show ?case
  proof (cases "stored_fp = fp")
    case False
    with p have "\<not> line_is_duplicate L now fp line"
      by (simp add: line_is_duplicate_def)
    with p False IH show ?thesis
      by simp
  next
    case True
    with rd p obtain t where t: "float_timestamp L timestamp = Inr t"
      by (auto simp: readable_def split: sum.splits)
    with p True have "line_is_duplicate L now fp line
        = (timedelta_seconds (fromtimestamp L now - fromtimestamp L t) < DEDUP_WINDOW)"
      by (simp add: line_is_duplicate_def)
    with p True t IH show ?thesis
      by simp
  qed
qed

lemma timedelta_seconds_small:
  assumes "0 \<le> d" "d < 300 * 1000000"
  shows "timedelta_seconds d < DEDUP_WINDOW"
proof -
  from assms have "0 \<le> d div 1000000" "d div 1000000 < 300"
    by auto
  then have "(d div 1000000) mod 86400 = d div 1000000" "d div 1000000 < 300"
    by simp_all
  then show ?thesis
    by (simp add: timedelta_seconds_def DEDUP_WINDOW_def)
qed

lemma recent_entry_suppressed:
  assumes "\<forall>line\<in>set lines. readable L fp line"
    and "entry \<in> set lines"
    and "parse_line entry = Inr (fp, timestamp)"
    and "float_timestamp L timestamp = Inr t"
    and "0 \<le> now - t" "now - t < 300 * 1000000"
    and "utcoffset L t = utcoffset L now"
  shows "is_duplicate_notification L (Some lines) now fp = Inr True"
proof -
  from assms(7) have "fromtimestamp L now - fromtimestamp L t = now - t"
    by (simp add: fromtimestamp_def)
  with assms(5,6) have "timedelta_seconds (fromtimestamp L now - fromtimestamp L t) < DEDUP_WINDOW"
    by (simp add: timedelta_seconds_small)
  with assms(3,4) have "line_is_duplicate L now fp entry"
    by (simp add: line_is_duplicate_def)
  with assms(2) have "list_ex (line_is_duplicate L now fp) lines"
    by (auto simp: list_ex_iff)
  with scan_lines_readable [OF assms(1), of now] show ?thesis
    by (simp add: is_duplicate_notification_def)
qed

lemma unseen_fingerprint_sent:
  assumes "\<forall>line\<in>set lines. readable L fp line"
    and "\<forall>line\<in>set lines. \<forall>timestamp. parse_line line \<noteq> Inr (fp, timestamp)"
  shows "is_duplicate_notification L (Some lines) now fp = Inr False"
proof -
  from assms(2) have "\<not> list_ex (line_is_duplicate L now fp) lines"
    by (auto simp: list_ex_iff line_is_duplicate_def split: sum.splits)
  with scan_lines_readable [OF assms(1), of now] show ?thesis
    by (simp add: is_duplicate_notification_def)
qed

lemma discord_main_duplicate:
  "is_duplicate_notification L file now (get_alert_fingerprint L environ) = Inr True \<Longrightarrow>
   discord_main L requests_post environ file now = \<lparr>effects = [], raised = Some (SystemExit 0)\<rparr>"
  by (simp add: discord_main_def try_block_def)

lemma discord_main_fresh:
  "is_duplicate_notification L file now (get_alert_fingerprint L environ) = Inr False \<Longrightarrow>
   effects (discord_main L requests_post environ file now) \<noteq> [] \<and>
   hd (effects (discord_main L requests_post environ file now)) = Webhook_post (build_embed environ)"
  by (simp add: discord_main_def try_block_def Let_def split: sum.splits option.splits)

text \<open>
  C1 says that the duplicate check answers duplicate, and the event is suppressed with a
  success exit and no webhook post, if and only if some stored line carries the same
  fingerprint with a timestamp whose elapsed time is below 300 seconds; an event last
  seen 300 or more seconds ago is sent. The code does not keep to it. It tests
  \<open>timedelta.seconds\<close>, which leaves the days of the difference out: on a host on UTC, a
  fingerprint recorded at the instant 1700000000 s is found a duplicate at the instant
  1700086410 s, one day and 10 seconds later, and the script ends with \<open>exit(0)\<close> and
  posts nothing. And it subtracts naive local datetimes: on a host in \<open>Europe/Zurich\<close>,
  a fingerprint recorded 3660 seconds before, across the end of summer time, is found a
  duplicate 60 seconds old.
\<close>

theorem dedup_window_day_old_entry:
  "\<not> seen_within_window sample_lib (1700086410 * 1000000) ''0cc175b9c0f1b6a831c399e269772661''
       [''0cc175b9c0f1b6a831c399e269772661|1700000000.0'' @ [CHR 0x0A]]
   \<and> is_duplicate_notification sample_lib
       (Some [''0cc175b9c0f1b6a831c399e269772661|1700000000.0'' @ [CHR 0x0A]])
       (1700086410 * 1000000) ''0cc175b9c0f1b6a831c399e269772661'' = Inr True
   \<and> \<not> seen_within_window sample_lib (1700086410 * 1000000)
       (get_alert_fingerprint sample_lib (event ''web1'' ''IIS'' ''CRITICAL'' ''down''))
       [get_alert_fingerprint sample_lib (event ''web1'' ''IIS'' ''CRITICAL'' ''down'')
          @ ''|1700000000.0'' @ [CHR 0x0A]]
   \<and> discord_main sample_lib webhook_ok (event ''web1'' ''IIS'' ''CRITICAL'' ''down'')
       (Some [get_alert_fingerprint sample_lib (event ''web1'' ''IIS'' ''CRITICAL'' ''down'')
                @ ''|1700000000.0'' @ [CHR 0x0A]])
       (1700086410 * 1000000)
       = \<lparr>effects = [], raised = Some (SystemExit 0)\<rparr>
   \<and> \<not> seen_within_window zurich_lib (1729990830 * 1000000) ''0cc175b9c0f1b6a831c399e269772661''
       [''0cc175b9c0f1b6a831c399e269772661|1729987170.0'' @ [CHR 0x0A]]
   \<and> is_duplicate_notification zurich_lib
       (Some [''0cc175b9c0f1b6a831c399e269772661|1729987170.0'' @ [CHR 0x0A]])
       (1729990830 * 1000000) ''0cc175b9c0f1b6a831c399e269772661'' = Inr True"
proof -
  let ?fp = "''0cc175b9c0f1b6a831c399e269772661''"
  let ?env = "event ''web1'' ''IIS'' ''CRITICAL'' ''down''"
  have a: "\<not> seen_within_window sample_lib (1700086410 * 1000000) ?fp
      [?fp @ ''|1700000000.0'' @ [CHR 0x0A]]"
    by code_simp
  have b: "is_duplicate_notification sample_lib (Some [?fp @ ''|1700000000.0'' @ [CHR 0x0A]])
      (1700086410 * 1000000) ?fp = Inr True"
    by code_simp
  have g: "get_alert_fingerprint sample_lib ?env = ''web1_IIS_CRITICAL''"
    by (simp add: get_alert_fingerprint_def sample_lib_def event_def environ_get_def)
  have c: "\<not> seen_within_window sample_lib (1700086410 * 1000000) ''web1_IIS_CRITICAL''
      [''web1_IIS_CRITICAL'' @ ''|1700000000.0'' @ [CHR 0x0A]]"
    by code_simp
  have d: "is_duplicate_notification sample_lib
      (Some [''web1_IIS_CRITICAL'' @ ''|1700000000.0'' @ [CHR 0x0A]])
      (1700086410 * 1000000) ''web1_IIS_CRITICAL'' = Inr True"
    by code_simp
  then have e: "discord_main sample_lib webhook_ok ?env
      (Some [''web1_IIS_CRITICAL'' @ ''|1700000000.0'' @ [CHR 0x0A]]) (1700086410 * 1000000)
      = \<lparr>effects = [], raised = Some (SystemExit 0)\<rparr>"
    by (intro discord_main_duplicate) (simp only: g)
  have f: "\<not> seen_within_window zurich_lib (1729990830 * 1000000) ?fp
      [?fp @ ''|1729987170.0'' @ [CHR 0x0A]]"
    by code_simp
  have h: "is_duplicate_notification zurich_lib (Some [?fp @ ''|1729987170.0'' @ [CHR 0x0A]])
      (1729990830 * 1000000) ?fp = Inr True"
    by code_simp
  from a b c e f h show ?thesis
    unfolding g by simp
qed

text \<open>
  C8: the duplicate check always returns a boolean and never raises: a missing file gives
  \<open>False\<close>, and when the scan of the lines raises (a line that does not split into two
  fields, a timestamp that cannot be read) the check gives \<open>False\<close> as well.
\<close>

theorem dedup_check_total:
  "(\<exists>b. is_duplicate_notification L file now fingerprint = Inr b)
   \<and> is_duplicate_notification L None now fingerprint = Inr False
   \<and> (\<forall>e. scan_lines L now fingerprint lines = Inl e \<longrightarrow>
         is_duplicate_notification L (Some lines) now fingerprint = Inr False)
   \<and> (\<forall>e. parse_line line = Inl e \<longrightarrow>
         is_duplicate_notification L (Some (line # lines)) now fingerprint = Inr False)"
proof (intro conjI allI impI)
  show "\<exists>b. is_duplicate_notification L file now fingerprint = Inr b"
  proof (cases "file")
    case None
    then have "is_duplicate_notification L file now fingerprint = Inr False"
      by (simp add: is_duplicate_notification_def)
    then show ?thesis ..
  next
    case (Some ls)
    then show ?thesis
      by (cases "scan_lines L now fingerprint ls") (auto simp: is_duplicate_notification_def)
  qed
next
  show "is_duplicate_notification L None now fingerprint = Inr False"
    by (simp add: is_duplicate_notification_def)
next
  fix e
  assume "scan_lines L now fingerprint lines = Inl e"
  then show "is_duplicate_notification L (Some lines) now fingerprint = Inr False"
    by (simp add: is_duplicate_notification_def)
next
  fix e
  assume "parse_line line = Inl e"
  then have "scan_lines L now fingerprint (line # lines) = Inl e"
    by simp
  then show "is_duplicate_notification L (Some (line # lines)) now fingerprint = Inr False"
    by (simp add: is_duplicate_notification_def)
qed

theorem dedup_check_total_witness:
  "scan_lines sample_lib (150 * 1000000) ''0cc175b9c0f1b6a831c399e269772661''
     [''no separator'' @ [CHR 0x0A]] = Inl ValueError
   \<and> is_duplicate_notification sample_lib (Some [''no separator'' @ [CHR 0x0A]])
       (150 * 1000000) ''0cc175b9c0f1b6a831c399e269772661'' = Inr False
   \<and> parse_line [CHR 0x0A] = Inl ValueError
   \<and> is_duplicate_notification sample_lib
       (Some [[CHR 0x0A], ''no separator'' @ [CHR 0x0A]])
       (150 * 1000000) ''0cc175b9c0f1b6a831c399e269772661'' = Inr False"
proof -
  have s: "scan_lines sample_lib (150 * 1000000) ''0cc175b9c0f1b6a831c399e269772661''
     [''no separator'' @ [CHR 0x0A]] = Inl ValueError"
    by code_simp
  have p: "parse_line [CHR 0x0A] = Inl ValueError"
    by code_simp
  from dedup_check_total [of sample_lib "Some [''no separator'' @ [CHR 0x0A]]"
      "150 * 1000000" "''0cc175b9c0f1b6a831c399e269772661''"
      "[''no separator'' @ [CHR 0x0A]]" "[CHR 0x0A]"] s p
  show ?thesis
    by simp
qed

section \<open>The ticketing notifier\<close>

lemma main_opened:
  assumes "read_state file = Inr state_data" "open_session api = Inr session"
  shows "main api environ file =
     (case ticket_ops api environ session state_data of
        (pending, state_data', calls) \<Rightarrow>
          (case close_session api session of
             Inl e \<Rightarrow>
               \<lparr>trace = [Read_state, Open_session] @ calls @ [Close_session session],
                failure = Some e, disk = file\<rparr>
           | Inr _ \<Rightarrow>
               \<lparr>trace = [Read_state, Open_session] @ calls
                        @ [Close_session session, Write_state],
                failure = pending, disk = write_state state_data'\<rparr>))"
  using assms by (simp add: main_def)

lemma ticket_ops_fingerprint:
  "environ_get environ ''NOTIFY_HOSTNAME'' ''Unknown'' @ ''_''
     @ environ_get environ ''NOTIFY_SERVICEDESC'' ''Service'' = fingerprint_of environ"
  by (simp add: fingerprint_of_def)

lemma ticket_ops_create:
  assumes "environ_get environ ''NOTIFY_SERVICESTATE'' ''UNKNOWN'' = state"
    "state = ''CRITICAL'' \<or> state = ''WARNING''"
    "state_data (fingerprint_of environ) = None"
  shows "ticket_ops api environ session state_data =
     (let payload = ticket_payload (environ_get environ ''NOTIFY_HOSTNAME'' ''Unknown'')
                      (environ_get environ ''NOTIFY_SERVICEDESC'' ''Service'') state
                      (environ_get environ ''NOTIFY_SERVICEOUTPUT'' ''No output'')
      in case post_ticket api session payload of
           Inl e \<Rightarrow> (Some e, state_data, [Create_ticket session payload])
         | Inr ticket_id \<Rightarrow>
             (None, state_data(fingerprint_of environ \<mapsto> ticket_id),
              [Create_ticket session payload, Print_created ticket_id (fingerprint_of environ)]))"
  using assms unfolding ticket_ops_def Let_def ticket_ops_fingerprint create_ticket_def
  by auto

lemma ticket_ops_open_already:
  assumes "environ_get environ ''NOTIFY_SERVICESTATE'' ''UNKNOWN'' = state"
    "state = ''CRITICAL'' \<or> state = ''WARNING''"
    "state_data (fingerprint_of environ) = Some t"
  shows "ticket_ops api environ session state_data = (None, state_data, [])"
  using assms unfolding ticket_ops_def Let_def ticket_ops_fingerprint
  by auto

lemma ticket_ops_close:
  assumes "environ_get environ ''NOTIFY_SERVICESTATE'' ''UNKNOWN'' = ''OK''"
    "state_data (fingerprint_of environ) = Some ticket_id"
  shows "ticket_ops api environ session state_data =
     (case put_ticket api session ticket_id of
        Inl e \<Rightarrow> (Some e, state_data, [Close_ticket session ticket_id])
      | Inr _ \<Rightarrow>
          (None, state_data(fingerprint_of environ := None),
           [Close_ticket session ticket_id, Print_closed ticket_id (fingerprint_of environ)]))"
  using assms unfolding ticket_ops_def Let_def ticket_ops_fingerprint close_ticket_def
  by auto

lemma ticket_ops_ok_nothing:
  assumes "environ_get environ ''NOTIFY_SERVICESTATE'' ''UNKNOWN'' = ''OK''"
    "state_data (fingerprint_of environ) = None"
  shows "ticket_ops api environ session state_data = (None, state_data, [])"
  using assms unfolding ticket_ops_def Let_def ticket_ops_fingerprint
  by auto

lemma ticket_ops_other:
  assumes "environ_get environ ''NOTIFY_SERVICESTATE'' ''UNKNOWN'' = state"
    "state \<noteq> ''CRITICAL''" "state \<noteq> ''WARNING''" "state \<noteq> ''OK''"
  shows "ticket_ops api environ session state_data = (None, state_data, [])"
  using assms unfolding ticket_ops_def Let_def
  by auto

lemma ticket_ops_shape:
  obtains
    (idle) "ticket_ops api environ session state_data = (None, state_data, [])"
  | (create_failed) e payload where "state_data (fingerprint_of environ) = None"
      "post_ticket api session payload = Inl e"
      "ticket_ops api environ session state_data
         = (Some e, state_data, [Create_ticket session payload])"
  | (created) ticket_id payload where "state_data (fingerprint_of environ) = None"
      "post_ticket api session payload = Inr ticket_id"
      "ticket_ops api environ session state_data
         = (None, state_data(fingerprint_of environ \<mapsto> ticket_id),
            [Create_ticket session payload, Print_created ticket_id (fingerprint_of environ)])"
  | (close_failed) e ticket_id where "state_data (fingerprint_of environ) = Some ticket_id"
      "put_ticket api session ticket_id = Inl e"
      "ticket_ops api environ session state_data
         = (Some e, state_data, [Close_ticket session ticket_id])"
  | (closed) ticket_id where "state_data (fingerprint_of environ) = Some ticket_id"
      "put_ticket api session ticket_id = Inr ()"
      "ticket_ops api environ session state_data
         = (None, state_data(fingerprint_of environ := None),
            [Close_ticket session ticket_id, Print_closed ticket_id (fingerprint_of environ)])"
proof -
  define state where "state = environ_get environ ''NOTIFY_SERVICESTATE'' ''UNKNOWN''"
  have st: "environ_get environ ''NOTIFY_SERVICESTATE'' ''UNKNOWN'' = state"
    by (simp add: state_def)
  consider (a) "state = ''CRITICAL'' \<or> state = ''WARNING''"
        "state_data (fingerprint_of environ) = None"
    | (b) t where "state = ''CRITICAL'' \<or> state = ''WARNING''"
        "state_data (fingerprint_of environ) = Some t"
    | (c) t where "state = ''OK''" "state_data (fingerprint_of environ) = Some t"
    | (d) "state = ''OK''" "state_data (fingerprint_of environ) = None"
    | (e) "state \<noteq> ''CRITICAL''" "state \<noteq> ''WARNING''" "state \<noteq> ''OK''"
    by (cases "state_data (fingerprint_of environ)") auto
  then show thesis
  proof cases
    case a
    note o = ticket_ops_create [of environ state state_data api session, OF st a]
    show thesis
    proof (cases "post_ticket api session (ticket_payload
        (environ_get environ ''NOTIFY_HOSTNAME'' ''Unknown'')
        (environ_get environ ''NOTIFY_SERVICEDESC'' ''Service'') state
        (environ_get environ ''NOTIFY_SERVICEOUTPUT'' ''No output''))")
      case (Inl x)
      with o a(2) show thesis by (intro create_failed) (simp_all add: Let_def)
    next
      case (Inr y)
      with o a(2) show thesis by (intro created) (simp_all add: Let_def)
    qed
  next
    case b
    from ticket_ops_open_already [of environ state state_data t api session, OF st b] show thesis by (rule idle)
  next
    case c
    with st have k: "environ_get environ ''NOTIFY_SERVICESTATE'' ''UNKNOWN'' = ''OK''" by simp
    note o = ticket_ops_close [of environ state_data t api session, OF k c(2)]
    show thesis
    proof (cases "put_ticket api session t")
      case (Inl x)
      with o c(2) show thesis by (intro close_failed) simp_all
    next
      case (Inr y)
      with o c(2) show thesis by (intro closed) simp_all
    qed
  next
    case d
    with st have k: "environ_get environ ''NOTIFY_SERVICESTATE'' ''UNKNOWN'' = ''OK''" by simp
    from ticket_ops_ok_nothing [of environ state_data api session, OF k d(2)] show thesis by (rule idle)
  next
    case e
    from ticket_ops_other [of environ state api session state_data, OF st e] show thesis by (rule idle)
  qed
qed

lemma card_ticket_le_1: "card {t. (m::ticket_map) f = Some t} \<le> Suc 0"
proof (cases "m f")
  case None
  then show ?thesis by simp
next
  case (Some a)
  then have "{t. m f = Some t} = {a}" by auto
  then show ?thesis by simp
qed

lemmas sample_defs =
  Let_def fingerprint_of_def event_def environ_get_def glpi_up_def glpi_down_def
  glpi_rejecting_def glpi_dropping_def open_session_def close_session_def read_state_def

lemmas sample_ops =
  ticket_ops_def create_ticket_def close_ticket_def

text \<open>
  C2: for every starting map and event, the \<open>try\<close> block of \<open>main\<close> follows the
  transition table. With no entry for the fingerprint, a \<open>WARNING\<close> or \<open>CRITICAL\<close>
  event makes exactly one ticket call, a creation, and the id it returns is recorded
  under the fingerprint; with an entry, such an event makes no call and leaves the map
  as it is; with an entry, an \<open>OK\<close> event makes exactly one ticket call, closing the
  recorded ticket, and when that succeeds the entry is removed; with no entry an \<open>OK\<close>
  event does nothing; any other state does nothing. When the state file is read and the
  session opens and closes, these are the ticket calls of \<open>main\<close> and the map it
  leaves in the state file.
\<close>

theorem ticket_transition_table:
  "let fingerprint = fingerprint_of environ;
       state = environ_get environ ''NOTIFY_SERVICESTATE'' ''UNKNOWN'';
       payload = ticket_payload (environ_get environ ''NOTIFY_HOSTNAME'' ''Unknown'')
                   (environ_get environ ''NOTIFY_SERVICEDESC'' ''Service'') state
                   (environ_get environ ''NOTIFY_SERVICEOUTPUT'' ''No output'')
   in case ticket_ops api environ session state_data of
        (pending, state_data', calls) \<Rightarrow>
          ((state = ''CRITICAL'' \<or> state = ''WARNING'') \<and> state_data fingerprint = None \<longrightarrow>
             filter is_ticket_call calls = [Create_ticket session payload] \<and>
             (\<forall>ticket_id. post_ticket api session payload = Inr ticket_id \<longrightarrow>
                state_data' = state_data(fingerprint \<mapsto> ticket_id) \<and> pending = None))
          \<and> ((state = ''CRITICAL'' \<or> state = ''WARNING'') \<and> state_data fingerprint \<noteq> None \<longrightarrow>
               calls = [] \<and> state_data' = state_data \<and> pending = None)
          \<and> (state = ''OK'' \<longrightarrow>
               (\<forall>ticket_id. state_data fingerprint = Some ticket_id \<longrightarrow>
                  filter is_ticket_call calls = [Close_ticket session ticket_id] \<and>
                  (put_ticket api session ticket_id = Inr () \<longrightarrow>
                     state_data' = state_data(fingerprint := None) \<and> pending = None)))
          \<and> (state = ''OK'' \<and> state_data fingerprint = None \<longrightarrow>
               calls = [] \<and> state_data' = state_data \<and> pending = None)
          \<and> (state \<noteq> ''CRITICAL'' \<and> state \<noteq> ''WARNING'' \<and> state \<noteq> ''OK'' \<longrightarrow>
               calls = [] \<and> state_data' = state_data \<and> pending = None)
          \<and> (read_state stored = Inr state_data \<and> open_session api = Inr session \<and>
               close_session api session = Inr () \<longrightarrow>
               ticket_calls (main api environ stored) = filter is_ticket_call calls \<and>
               disk (main api environ stored) = Content state_data')"
proof -
  define state where "state = environ_get environ ''NOTIFY_SERVICESTATE'' ''UNKNOWN''"
  define payload where
    "payload = ticket_payload (environ_get environ ''NOTIFY_HOSTNAME'' ''Unknown'')
       (environ_get environ ''NOTIFY_SERVICEDESC'' ''Service'') state
       (environ_get environ ''NOTIFY_SERVICEOUTPUT'' ''No output'')"
  obtain pending state_data' calls
    where t: "ticket_ops api environ session state_data = (pending, state_data', calls)"
    by (cases "ticket_ops api environ session state_data") auto
  have st: "environ_get environ ''NOTIFY_SERVICESTATE'' ''UNKNOWN'' = state"
    by (simp add: state_def)
  have c1: "(state = ''CRITICAL'' \<or> state = ''WARNING'') \<and>
        state_data (fingerprint_of environ) = None \<longrightarrow>
      filter is_ticket_call calls = [Create_ticket session payload] \<and>
      (\<forall>ticket_id. post_ticket api session payload = Inr ticket_id \<longrightarrow>
         state_data' = state_data(fingerprint_of environ \<mapsto> ticket_id) \<and> pending = None)"
  proof
    assume a: "(state = ''CRITICAL'' \<or> state = ''WARNING'') \<and>
        state_data (fingerprint_of environ) = None"
    then have "ticket_ops api environ session state_data =
       (case post_ticket api session payload of
           Inl e \<Rightarrow> (Some e, state_data, [Create_ticket session payload])
         | Inr ticket_id \<Rightarrow>
             (None, state_data(fingerprint_of environ \<mapsto> ticket_id),
              [Create_ticket session payload, Print_created ticket_id (fingerprint_of environ)]))"
      using ticket_ops_create [of environ state state_data api session] st
      by (simp only: Let_def payload_def)
    with t show "filter is_ticket_call calls = [Create_ticket session payload] \<and>
      (\<forall>ticket_id. post_ticket api session payload = Inr ticket_id \<longrightarrow>
         state_data' = state_data(fingerprint_of environ \<mapsto> ticket_id) \<and> pending = None)"
      by (cases "post_ticket api session payload") auto
  qed
  have c2: "(state = ''CRITICAL'' \<or> state = ''WARNING'') \<and>
        state_data (fingerprint_of environ) \<noteq> None \<longrightarrow>
      calls = [] \<and> state_data' = state_data \<and> pending = None"
  proof
    assume a: "(state = ''CRITICAL'' \<or> state = ''WARNING'') \<and>
        state_data (fingerprint_of environ) \<noteq> None"
    then obtain i where "state_data (fingerprint_of environ) = Some i" by auto
    with a have "ticket_ops api environ session state_data = (None, state_data, [])"
      using ticket_ops_open_already [of environ state state_data i api session] st
      by simp
    with t show "calls = [] \<and> state_data' = state_data \<and> pending = None"
      by simp
  qed
  have c3: "state = ''OK'' \<longrightarrow>
      (\<forall>ticket_id. state_data (fingerprint_of environ) = Some ticket_id \<longrightarrow>
         filter is_ticket_call calls = [Close_ticket session ticket_id] \<and>
         (put_ticket api session ticket_id = Inr () \<longrightarrow>
            state_data' = state_data(fingerprint_of environ := None) \<and> pending = None))"
  proof (intro impI allI)
    fix ticket_id
    assume "state = ''OK''" "state_data (fingerprint_of environ) = Some ticket_id"
    then have "ticket_ops api environ session state_data =
       (case put_ticket api session ticket_id of
          Inl e \<Rightarrow> (Some e, state_data, [Close_ticket session ticket_id])
        | Inr _ \<Rightarrow>
            (None, state_data(fingerprint_of environ := None),
             [Close_ticket session ticket_id, Print_closed ticket_id (fingerprint_of environ)]))"
      using ticket_ops_close [of environ state_data ticket_id api session] st
      by simp
    with t show "filter is_ticket_call calls = [Close_ticket session ticket_id] \<and>
         (put_ticket api session ticket_id = Inr () \<longrightarrow>
            state_data' = state_data(fingerprint_of environ := None) \<and> pending = None)"
      by (cases "put_ticket api session ticket_id") auto
  qed
  have c4: "state = ''OK'' \<and> state_data (fingerprint_of environ) = None \<longrightarrow>
      calls = [] \<and> state_data' = state_data \<and> pending = None"
  proof
    assume "state = ''OK'' \<and> state_data (fingerprint_of environ) = None"
    then have "ticket_ops api environ session state_data = (None, state_data, [])"
      using ticket_ops_ok_nothing [of environ state_data api session] st
      by simp
    with t show "calls = [] \<and> state_data' = state_data \<and> pending = None"
      by simp
  qed
  have c5: "state \<noteq> ''CRITICAL'' \<and> state \<noteq> ''WARNING'' \<and> state \<noteq> ''OK'' \<longrightarrow>
      calls = [] \<and> state_data' = state_data \<and> pending = None"
  proof
    assume "state \<noteq> ''CRITICAL'' \<and> state \<noteq> ''WARNING'' \<and> state \<noteq> ''OK''"
    then have "ticket_ops api environ session state_data = (None, state_data, [])"
      using ticket_ops_other [of environ state api session state_data] st
      by simp
    with t show "calls = [] \<and> state_data' = state_data \<and> pending = None"
      by simp
  qed
  have c6: "read_state stored = Inr state_data \<and> open_session api = Inr session \<and>
        close_session api session = Inr () \<longrightarrow>
      ticket_calls (main api environ stored) = filter is_ticket_call calls \<and>
      disk (main api environ stored) = Content state_data'"
  proof
    assume a: "read_state stored = Inr state_data \<and> open_session api = Inr session \<and>
        close_session api session = Inr ()"
    then have "main api environ stored =
        \<lparr>trace = [Read_state, Open_session] @ calls @ [Close_session session, Write_state],
         failure = pending, disk = write_state state_data'\<rparr>"
      using main_opened [of stored state_data api session environ] t by simp
    then show "ticket_calls (main api environ stored) = filter is_ticket_call calls \<and>
      disk (main api environ stored) = Content state_data'"
      by (simp add: ticket_calls_def write_state_def)
  qed
  show ?thesis
    unfolding Let_def state_def [symmetric] payload_def [symmetric] t prod.case
    by (intro conjI c1 c2 c3 c4 c5 c6)
qed

theorem ticket_transition_table_witness:
  "read_state Missing = Inr Map.empty
   \<and> open_session (glpi_up 42) = Inr ''s1''
   \<and> close_session (glpi_up 42) ''s1'' = Inr ()
   \<and> ticket_calls (main (glpi_up 42) (event ''host1'' ''svcA'' ''CRITICAL'' ''down'') Missing)
       = [Create_ticket ''s1'' (ticket_payload ''host1'' ''svcA'' ''CRITICAL'' ''down'')]
   \<and> disk (main (glpi_up 42) (event ''host1'' ''svcA'' ''CRITICAL'' ''down'') Missing)
       = Content [''host1_svcA'' \<mapsto> 42]
   \<and> ticket_calls (main (glpi_up 42) (event ''host1'' ''svcA'' ''WARNING'' ''slow'')
         (Content [''host1_svcA'' \<mapsto> 42])) = []
   \<and> disk (main (glpi_up 42) (event ''host1'' ''svcA'' ''WARNING'' ''slow'')
         (Content [''host1_svcA'' \<mapsto> 42])) = Content [''host1_svcA'' \<mapsto> 42]
   \<and> ticket_calls (main (glpi_up 42) (event ''host1'' ''svcA'' ''OK'' ''fine'')
         (Content [''host1_svcA'' \<mapsto> 42])) = [Close_ticket ''s1'' 42]
   \<and> disk (main (glpi_up 42) (event ''host1'' ''svcA'' ''OK'' ''fine'')
         (Content [''host1_svcA'' \<mapsto> 42])) = Content Map.empty
   \<and> ticket_calls (main (glpi_up 42) (event ''host1'' ''svcA'' ''OK'' ''fine'')
         (Content Map.empty)) = []
   \<and> disk (main (glpi_up 42) (event ''host1'' ''svcA'' ''OK'' ''fine'')
         (Content Map.empty)) = Content Map.empty
   \<and> ticket_calls (main (glpi_up 42) (event ''host1'' ''svcA'' ''FOO'' ''odd'')
         (Content Map.empty)) = []"
proof -
  have r0: "read_state Missing = Inr Map.empty"
    and o: "open_session (glpi_up 42) = Inr ''s1''"
    and c: "close_session (glpi_up 42) ''s1'' = Inr ()"
    by (simp_all add: sample_defs)
  have a1: "ticket_calls (main (glpi_up 42) (event ''host1'' ''svcA'' ''CRITICAL'' ''down'') Missing)
       = [Create_ticket ''s1'' (ticket_payload ''host1'' ''svcA'' ''CRITICAL'' ''down'')]
     \<and> disk (main (glpi_up 42) (event ''host1'' ''svcA'' ''CRITICAL'' ''down'') Missing)
       = Content [''host1_svcA'' \<mapsto> 42]"
    using ticket_transition_table [where environ = "event ''host1'' ''svcA'' ''CRITICAL'' ''down''"
        and api = "glpi_up 42" and session = "''s1''" and state_data = Map.empty
        and stored = Missing]
    by (simp add: sample_defs sample_ops)
  have a2: "ticket_calls (main (glpi_up 42) (event ''host1'' ''svcA'' ''WARNING'' ''slow'')
         (Content [''host1_svcA'' \<mapsto> 42])) = []
     \<and> disk (main (glpi_up 42) (event ''host1'' ''svcA'' ''WARNING'' ''slow'')
         (Content [''host1_svcA'' \<mapsto> 42])) = Content [''host1_svcA'' \<mapsto> 42]"
    using ticket_transition_table [where environ = "event ''host1'' ''svcA'' ''WARNING'' ''slow''"
        and api = "glpi_up 42" and session = "''s1''"
        and state_data = "[''host1_svcA'' \<mapsto> 42]"
        and stored = "Content [''host1_svcA'' \<mapsto> 42]"]
    by (simp add: sample_defs sample_ops)
  have a3: "ticket_calls (main (glpi_up 42) (event ''host1'' ''svcA'' ''OK'' ''fine'')
         (Content [''host1_svcA'' \<mapsto> 42])) = [Close_ticket ''s1'' 42]
     \<and> disk (main (glpi_up 42) (event ''host1'' ''svcA'' ''OK'' ''fine'')
         (Content [''host1_svcA'' \<mapsto> 42])) = Content Map.empty"
    using ticket_transition_table [where environ = "event ''host1'' ''svcA'' ''OK'' ''fine''"
        and api = "glpi_up 42" and session = "''s1''"
        and state_data = "[''host1_svcA'' \<mapsto> 42]"
        and stored = "Content [''host1_svcA'' \<mapsto> 42]"]
    by (simp add: sample_defs sample_ops)
  have a4: "ticket_calls (main (glpi_up 42) (event ''host1'' ''svcA'' ''OK'' ''fine'')
         (Content Map.empty)) = []
     \<and> disk (main (glpi_up 42) (event ''host1'' ''svcA'' ''OK'' ''fine'')
         (Content Map.empty)) = Content Map.empty"
    using ticket_transition_table [where environ = "event ''host1'' ''svcA'' ''OK'' ''fine''"
        and api = "glpi_up 42" and session = "''s1''" and state_data = Map.empty
        and stored = "Content Map.empty"]
    by (simp add: sample_defs sample_ops)
  have a5: "ticket_calls (main (glpi_up 42) (event ''host1'' ''svcA'' ''FOO'' ''odd'')
         (Content Map.empty)) = []"
    using ticket_transition_table [where environ = "event ''host1'' ''svcA'' ''FOO'' ''odd''"
        and api = "glpi_up 42" and session = "''s1''" and state_data = Map.empty
        and stored = "Content Map.empty"]
    by (simp add: sample_defs sample_ops)
  from r0 o c a1 a2 a3 a4 a5 show ?thesis
    by (simp only:)
qed

text \<open>
  C3: the ticket map holds at most one ticket id for a fingerprint, and every invocation
  keeps it so: a ticket is created only when the fingerprint has no entry in the map
  that was read, a ticket is closed only when it is the fingerprint's entry, a successful
  close that is written leaves the fingerprint without an entry, an invocation makes at
  most one ticket call, the written map differs from the one read at the fingerprint
  only, and an invocation that does not write leaves the state file as it was.
\<close>

theorem one_ticket_per_fingerprint:
  "let fingerprint = fingerprint_of environ; r = main api environ stored
   in (\<forall>session payload. Create_ticket session payload \<in> set (trace r) \<longrightarrow>
         (\<exists>state_data. read_state stored = Inr state_data \<and> state_data fingerprint = None))
    \<and> (\<forall>session ticket_id. Close_ticket session ticket_id \<in> set (trace r) \<longrightarrow>
         (\<exists>state_data. read_state stored = Inr state_data \<and>
            state_data fingerprint = Some ticket_id))
    \<and> (\<forall>session ticket_id. Close_ticket session ticket_id \<in> set (trace r) \<and>
         put_ticket api session ticket_id = Inr () \<and> Write_state \<in> set (trace r) \<longrightarrow>
         (\<exists>m. disk r = Content m \<and> m fingerprint = None))
    \<and> length (ticket_calls r) \<le> 1
    \<and> (Write_state \<in> set (trace r) \<longrightarrow>
         (\<exists>state_data m. read_state stored = Inr state_data \<and> disk r = Content m \<and>
            (\<forall>f. f \<noteq> fingerprint \<longrightarrow> m f = state_data f) \<and>
            (\<forall>f. card {t. m f = Some t} \<le> 1)))
    \<and> (Write_state \<notin> set (trace r) \<longrightarrow> disk r = stored)"
proof (cases "read_state stored")
  case (Inl e)
  then show ?thesis
    by (simp add: main_def Let_def ticket_calls_def)
next
  case (Inr state_data)
  note r = this
  show ?thesis
  proof (cases "open_session api")
    case (Inl e)
    with r show ?thesis
      by (simp add: main_def Let_def ticket_calls_def)
  next
    case (Inr session)
    note m = main_opened [OF r Inr, of environ]
    show ?thesis
    proof (cases rule: ticket_ops_shape [of api environ session state_data])
      case idle
      with m r show ?thesis
        by (cases "close_session api session")
          (simp_all add: Let_def ticket_calls_def write_state_def card_ticket_le_1)
    next
      case (create_failed e payload)
      with m r show ?thesis
        by (cases "close_session api session")
          (simp_all add: Let_def ticket_calls_def write_state_def card_ticket_le_1)
    next
      case (created ticket_id payload)
      with m r show ?thesis
        by (cases "close_session api session")
          (simp_all add: Let_def ticket_calls_def write_state_def card_ticket_le_1)
    next
      case (close_failed e ticket_id)
      with m r show ?thesis
        by (cases "close_session api session")
          (simp_all add: Let_def ticket_calls_def write_state_def card_ticket_le_1)
    next
      case (closed ticket_id)
      with m r show ?thesis
        by (cases "close_session api session")
          (simp_all add: Let_def ticket_calls_def write_state_def card_ticket_le_1)
    qed
  qed
qed

theorem one_ticket_per_fingerprint_witness:
  "Close_ticket ''s1'' 42
       \<in> set (trace (main (glpi_up 43) (event ''host1'' ''svcA'' ''OK'' ''fine'')
                 (Content [''host1_svcA'' \<mapsto> 42])))
   \<and> put_ticket (glpi_up 43) ''s1'' 42 = Inr ()
   \<and> Write_state
       \<in> set (trace (main (glpi_up 43) (event ''host1'' ''svcA'' ''OK'' ''fine'')
                 (Content [''host1_svcA'' \<mapsto> 42])))
   \<and> read_state (Content [''host1_svcA'' \<mapsto> 42]) = Inr [''host1_svcA'' \<mapsto> 42]
   \<and> disk (main (glpi_up 43) (event ''host1'' ''svcA'' ''OK'' ''fine'')
              (Content [''host1_svcA'' \<mapsto> 42])) = Content Map.empty
   \<and> length (ticket_calls (main (glpi_up 43) (event ''host1'' ''svcA'' ''OK'' ''fine'')
              (Content [''host1_svcA'' \<mapsto> 42]))) \<le> 1
   \<and> Create_ticket ''s1'' (ticket_payload ''host1'' ''svcA'' ''CRITICAL'' ''down'')
       \<in> set (trace (main (glpi_up 43) (event ''host1'' ''svcA'' ''CRITICAL'' ''down'') Missing))
   \<and> read_state Missing = Inr Map.empty
   \<and> disk (main (glpi_up 43) (event ''host1'' ''svcA'' ''CRITICAL'' ''down'') Missing)
       = Content [''host1_svcA'' \<mapsto> 43]
   \<and> Write_state \<notin> set (trace (main glpi_down (event ''host1'' ''svcA'' ''CRITICAL'' ''down'')
         (Content [''host1_svcA'' \<mapsto> 42])))
   \<and> disk (main glpi_down (event ''host1'' ''svcA'' ''CRITICAL'' ''down'')
         (Content [''host1_svcA'' \<mapsto> 42])) = Content [''host1_svcA'' \<mapsto> 42]"
proof -
  have r: "read_state (Content [''host1_svcA'' \<mapsto> 42]) = Inr [''host1_svcA'' \<mapsto> 42]"
    and r0: "read_state Missing = Inr Map.empty"
    and p: "put_ticket (glpi_up 43) ''s1'' 42 = Inr ()"
    by (simp_all add: sample_defs)
  have t1: "trace (main (glpi_up 43) (event ''host1'' ''svcA'' ''OK'' ''fine'')
                 (Content [''host1_svcA'' \<mapsto> 42]))
      = [Read_state, Open_session, Close_ticket ''s1'' 42, Print_closed 42 ''host1_svcA'',
         Close_session ''s1'', Write_state]"
    and d1: "disk (main (glpi_up 43) (event ''host1'' ''svcA'' ''OK'' ''fine'')
              (Content [''host1_svcA'' \<mapsto> 42])) = Content Map.empty"
    and t2: "trace (main (glpi_up 43) (event ''host1'' ''svcA'' ''CRITICAL'' ''down'') Missing)
      = [Read_state, Open_session,
         Create_ticket ''s1'' (ticket_payload ''host1'' ''svcA'' ''CRITICAL'' ''down''),
         Print_created 43 ''host1_svcA'', Close_session ''s1'', Write_state]"
    and d2: "disk (main (glpi_up 43) (event ''host1'' ''svcA'' ''CRITICAL'' ''down'') Missing)
       = Content [''host1_svcA'' \<mapsto> 43]"
    and t3: "trace (main glpi_down (event ''host1'' ''svcA'' ''CRITICAL'' ''down'')
         (Content [''host1_svcA'' \<mapsto> 42])) = [Read_state, Open_session]"
    by (simp_all add: main_def sample_ops sample_defs write_state_def)
  from one_ticket_per_fingerprint [where environ = "event ''host1'' ''svcA'' ''OK'' ''fine''"
      and api = "glpi_up 43" and stored = "Content [''host1_svcA'' \<mapsto> 42]"]
    one_ticket_per_fingerprint [where environ = "event ''host1'' ''svcA'' ''CRITICAL'' ''down''"
      and api = "glpi_up 43" and stored = Missing]
    one_ticket_per_fingerprint [where environ = "event ''host1'' ''svcA'' ''CRITICAL'' ''down''"
      and api = glpi_down and stored = "Content [''host1_svcA'' \<mapsto> 42]"]
    r r0 p t1 d1 t2 d2 t3
  show ?thesis
    by (simp add: Let_def ticket_calls_def)
qed

text \<open>
  C4: in every invocation in which the session was opened, the call that closes the
  session is made, after the ticket calls and whatever they did: when creating or closing
  the ticket raises, the session is closed first and \<open>main\<close> ends with an exception
  afterwards (the ticket call's own, when closing the session succeeds).
\<close>

theorem session_closed_on_every_path:
  assumes "read_state file = Inr state_data"
    and "open_session api = Inr session"
  shows "let r = main api environ file
         in case ticket_ops api environ session state_data of
              (pending, state_data', calls) \<Rightarrow>
                (\<exists>rest. trace r = [Read_state, Open_session] @ calls @ Close_session session # rest
                        \<and> (rest = [] \<or> rest = [Write_state]))
                \<and> Close_session session \<notin> set calls
                \<and> Close_session session \<in> set (trace r)
                \<and> (\<forall>e. pending = Some e \<longrightarrow>
                      failure r \<noteq> None \<and>
                      (close_session api session = Inr () \<longrightarrow> failure r = Some e))"
proof -
  note m = main_opened [OF assms, of environ]
  show ?thesis
  proof (cases rule: ticket_ops_shape [of api environ session state_data])
    case idle
    with m show ?thesis
      by (cases "close_session api session") (simp_all add: Let_def)
  next
    case (create_failed e payload)
    with m show ?thesis
      by (cases "close_session api session") (simp_all add: Let_def)
  next
    case (created ticket_id payload)
    with m show ?thesis
      by (cases "close_session api session") (simp_all add: Let_def)
  next
    case (close_failed e ticket_id)
    with m show ?thesis
      by (cases "close_session api session") (simp_all add: Let_def)
  next
    case (closed ticket_id)
    with m show ?thesis
      by (cases "close_session api session") (simp_all add: Let_def)
  qed
qed

theorem session_closed_on_every_path_witness:
  "read_state Missing = Inr Map.empty
   \<and> open_session glpi_rejecting = Inr ''s1''
   \<and> ticket_ops glpi_rejecting (event ''host1'' ''svcA'' ''CRITICAL'' ''down'') ''s1'' Map.empty
       = (Some HTTPError, Map.empty,
          [Create_ticket ''s1'' (ticket_payload ''host1'' ''svcA'' ''CRITICAL'' ''down'')])
   \<and> Close_session ''s1''
       \<in> set (trace (main glpi_rejecting (event ''host1'' ''svcA'' ''CRITICAL'' ''down'') Missing))
   \<and> failure (main glpi_rejecting (event ''host1'' ''svcA'' ''CRITICAL'' ''down'') Missing)
       = Some HTTPError"
proof -
  have r: "read_state Missing = Inr Map.empty"
    and o: "open_session glpi_rejecting = Inr ''s1''"
    and c: "close_session glpi_rejecting ''s1'' = Inr ()"
    by (simp_all add: sample_defs)
  have t: "ticket_ops glpi_rejecting (event ''host1'' ''svcA'' ''CRITICAL'' ''down'') ''s1'' Map.empty
       = (Some HTTPError, Map.empty,
          [Create_ticket ''s1'' (ticket_payload ''host1'' ''svcA'' ''CRITICAL'' ''down'')])"
    by (simp add: ticket_ops_def create_ticket_def sample_defs)
  from session_closed_on_every_path [OF r o, of "event ''host1'' ''svcA'' ''CRITICAL'' ''down''"]
    r o c t
  show ?thesis
    by (simp add: Let_def)
qed

text \<open>
  The state file is not written in every invocation: when the session cannot be opened
  nothing is written, and when closing the session raises, the ticket that was just
  created is not recorded.
\<close>

theorem state_write_counterexample:
  "read_state Missing = Inr Map.empty
   \<and> trace (main glpi_down (event ''host1'' ''svcA'' ''CRITICAL'' ''down'') Missing)
       = [Read_state, Open_session]
   \<and> disk (main glpi_down (event ''host1'' ''svcA'' ''CRITICAL'' ''down'') Missing) = Missing
   \<and> trace (main (glpi_dropping 42) (event ''host1'' ''svcA'' ''CRITICAL'' ''down'') Missing)
       = [Read_state, Open_session,
          Create_ticket ''s1'' (ticket_payload ''host1'' ''svcA'' ''CRITICAL'' ''down''),
          Print_created 42 ''host1_svcA'', Close_session ''s1'']
   \<and> disk (main (glpi_dropping 42) (event ''host1'' ''svcA'' ''CRITICAL'' ''down'') Missing)
       = Missing"
  by (simp add: main_def ticket_ops_def create_ticket_def sample_defs)

text \<open>
  C5, amended: the map is loaded at the start, a missing state file giving the empty
  map; in every invocation in which the session is opened and the call that closes it
  returns, the map as the ticket operations left it is written to the state file right
  after the session is closed, whether it changed or not and whether creating or closing
  the ticket raised or not.
\<close>

theorem state_written_after_session_close:
  assumes "read_state file = Inr state_data"
    and "open_session api = Inr session"
    and "close_session api session = Inr ()"
  shows "read_state Missing = Inr Map.empty
         \<and> (let r = main api environ file
            in case ticket_ops api environ session state_data of
                 (pending, state_data', calls) \<Rightarrow>
                   trace r = [Read_state, Open_session] @ calls
                             @ [Close_session session, Write_state]
                   \<and> disk r = Content state_data'
                   \<and> failure r = pending)"
  using main_opened [OF assms(1,2), of environ] assms(3)
  by (simp add: Let_def read_state_def write_state_def split: prod.splits)

theorem state_written_after_session_close_witness:
  "read_state (Content [''host2_svcB'' \<mapsto> 7]) = Inr [''host2_svcB'' \<mapsto> 7]
   \<and> open_session glpi_rejecting = Inr ''s1''
   \<and> close_session glpi_rejecting ''s1'' = Inr ()
   \<and> trace (main glpi_rejecting (event ''host1'' ''svcA'' ''WARNING'' ''slow'')
        (Content [''host2_svcB'' \<mapsto> 7]))
       = [Read_state, Open_session,
          Create_ticket ''s1'' (ticket_payload ''host1'' ''svcA'' ''WARNING'' ''slow''),
          Close_session ''s1'', Write_state]
   \<and> disk (main glpi_rejecting (event ''host1'' ''svcA'' ''WARNING'' ''slow'')
        (Content [''host2_svcB'' \<mapsto> 7])) = Content [''host2_svcB'' \<mapsto> 7]
   \<and> failure (main glpi_rejecting (event ''host1'' ''svcA'' ''WARNING'' ''slow'')
        (Content [''host2_svcB'' \<mapsto> 7])) = Some HTTPError"
proof -
  have r: "read_state (Content [''host2_svcB'' \<mapsto> 7]) = Inr [''host2_svcB'' \<mapsto> 7]"
    and o: "open_session glpi_rejecting = Inr ''s1''"
    and c: "close_session glpi_rejecting ''s1'' = Inr ()"
    by (simp_all add: sample_defs)
  have t: "ticket_ops glpi_rejecting (event ''host1'' ''svcA'' ''WARNING'' ''slow'') ''s1''
         [''host2_svcB'' \<mapsto> 7]
       = (Some HTTPError, [''host2_svcB'' \<mapsto> 7],
          [Create_ticket ''s1'' (ticket_payload ''host1'' ''svcA'' ''WARNING'' ''slow'')])"
    by (simp add: ticket_ops_def create_ticket_def sample_defs)
  from state_written_after_session_close [OF r o c, of "event ''host1'' ''svcA'' ''WARNING'' ''slow''"]
    r o c t
  show ?thesis
    by (simp add: Let_def)
qed

text \<open>
  C10: when opening the session raises, \<open>main\<close> has made no ticket call and has not
  written the state file, which is left as it was; and when the call that closes the
  session raises, the state file is not written either.
\<close>

theorem no_state_write_when_session_fails:
  assumes "read_state file = Inr state_data"
  shows "(\<forall>e. open_session api = Inl e \<longrightarrow>
            main api environ file
              = \<lparr>trace = [Read_state, Open_session], failure = Some e, disk = file\<rparr>)
         \<and> (\<forall>session e. open_session api = Inr session \<and> close_session api session = Inl e \<longrightarrow>
              Write_state \<notin> set (trace (main api environ file)) \<and>
              disk (main api environ file) = file \<and>
              failure (main api environ file) = Some e)"
proof (intro conjI allI impI)
  fix e
  assume "open_session api = Inl e"
  with assms show "main api environ file
      = \<lparr>trace = [Read_state, Open_session], failure = Some e, disk = file\<rparr>"
    by (simp add: main_def)
next
  fix session e
  assume a: "open_session api = Inr session \<and> close_session api session = Inl e"
  then have o: "open_session api = Inr session" and c: "close_session api session = Inl e"
    by simp_all
  note m = main_opened [OF assms o, of environ]
  have "Write_state \<notin> set (trace (main api environ file)) \<and>
      disk (main api environ file) = file \<and>
      failure (main api environ file) = Some e"
    by (cases rule: ticket_ops_shape [of api environ session state_data])
      (simp_all add: m c)
  then show "Write_state \<notin> set (trace (main api environ file))"
    and "disk (main api environ file) = file"
    and "failure (main api environ file) = Some e"
    by simp_all
qed

theorem no_state_write_when_session_fails_witness:
  "read_state (Content [''host2_svcB'' \<mapsto> 7]) = Inr [''host2_svcB'' \<mapsto> 7]
   \<and> open_session glpi_down = Inl ConnectionError
   \<and> main glpi_down (event ''host1'' ''svcA'' ''CRITICAL'' ''down'') (Content [''host2_svcB'' \<mapsto> 7])
       = \<lparr>trace = [Read_state, Open_session], failure = Some ConnectionError,
          disk = Content [''host2_svcB'' \<mapsto> 7]\<rparr>
   \<and> open_session (glpi_dropping 42) = Inr ''s1''
   \<and> close_session (glpi_dropping 42) ''s1'' = Inl ConnectionError
   \<and> Write_state \<notin> set (trace (main (glpi_dropping 42)
        (event ''host1'' ''svcA'' ''CRITICAL'' ''down'') (Content [''host2_svcB'' \<mapsto> 7])))
   \<and> disk (main (glpi_dropping 42) (event ''host1'' ''svcA'' ''CRITICAL'' ''down'')
        (Content [''host2_svcB'' \<mapsto> 7])) = Content [''host2_svcB'' \<mapsto> 7]"
proof -
  have r: "read_state (Content [''host2_svcB'' \<mapsto> 7]) = Inr [''host2_svcB'' \<mapsto> 7]"
    and o1: "open_session glpi_down = Inl ConnectionError"
    and o2: "open_session (glpi_dropping 42) = Inr ''s1''"
    and c2: "close_session (glpi_dropping 42) ''s1'' = Inl ConnectionError"
    by (simp_all add: sample_defs)
  from no_state_write_when_session_fails [OF r, of glpi_down
      "event ''host1'' ''svcA'' ''CRITICAL'' ''down''"]
    no_state_write_when_session_fails [OF r, of "glpi_dropping 42"
      "event ''host1'' ''svcA'' ''CRITICAL'' ''down''"]
    r o1 o2 c2
  show ?thesis
    by simp
qed

end
